theory Spec2Isabelle
  imports Main "HOL-Library.Sublist" "HOL-Library.Word"
begin

section \<open>JavaScript values as the action sees them\<close>

text \<open>
  The action (src/index.js) works on values decoded by \<open>JSON.parse\<close> and on the results
  of property reads, which may be \<open>undefined\<close>. A JavaScript number is a double. The
  action never computes with a number: it prints it, tests it for zero and passes it on.
  So a number that is an integer from \<open>-2^53\<close> to \<open>2^53 - 1\<close> (every line and column
  number; each of these is a double that prints as its decimal digits) is \<open>Num\<close> of a
  signed 54-bit word, and any other number (a fraction, a larger integer, an infinity)
  is \<open>OtherNum\<close> of the text the conversion to string gives for it, such as
  \<open>1e+21\<close> or \<open>0.5\<close>. An object is the list of its own properties; a read takes the
  first binding of a key.
\<close>

datatype jsval =
    Undefined
  | Null
  | Bool bool
  | Num "54 word"
  | OtherNum string
  | Str string
  | Arr "jsval list"
  | Obj "(string \<times> jsval) list"

text \<open>What a \<open>throw\<close> carries: the two exceptions the platform raises in this program,
  and the failure of the external tokenizer.\<close>

datatype error = TypeError | SyntaxError | ParseError

abbreviation newline :: char where
  "newline \<equiv> CHR 0x0A"

abbreviation apostrophe :: char where
  "apostrophe \<equiv> CHR 0x27"

definition bind :: "error + 'a \<Rightarrow> ('a \<Rightarrow> error + 'b) \<Rightarrow> error + 'b" where
  "bind r k = (case r of Inl e \<Rightarrow> Inl e | Inr x \<Rightarrow> k x)"

text \<open>
  \<open>message.key\<close>: reading a property of \<open>null\<close> or \<open>undefined\<close> throws a TypeError. An
  object gives its own property or \<open>undefined\<close>; strings, numbers, booleans and arrays
  have none of the properties this program reads (type, message, message-id, symbol,
  path, line, column, obj, module), so the read gives \<open>undefined\<close>.
\<close>

fun get_prop :: "jsval \<Rightarrow> string \<Rightarrow> error + jsval" where
  "get_prop Undefined k = Inl TypeError"
| "get_prop Null k = Inl TypeError"
| "get_prop (Obj kvs) k = (case map_of kvs k of None \<Rightarrow> Inr Undefined | Some v \<Rightarrow> Inr v)"
| "get_prop v k = Inr Undefined"

text \<open>The truth value JavaScript gives a value in \<open>a || b\<close>.\<close>

fun truthy :: "jsval \<Rightarrow> bool" where
  "truthy Undefined = False"
| "truthy Null = False"
| "truthy (Bool b) = b"
| "truthy (Num n) = (n \<noteq> 0)"
| "truthy (OtherNum s) = True"
| "truthy (Str s) = (s \<noteq> [])"
| "truthy (Arr xs) = True"
| "truthy (Obj kvs) = True"

subsection \<open>Conversion to string, as a template literal does it\<close>

definition digit_char :: "nat \<Rightarrow> char" where
  "digit_char d = ''0123456789'' ! d"

fun show_nat :: "nat \<Rightarrow> string" where
  "show_nat n = (if n < 10 then [digit_char n] else show_nat (n div 10) @ [digit_char (n mod 10)])"

declare show_nat.simps [simp del]

definition show_int :: "int \<Rightarrow> string" where
  "show_int i = (if i < 0 then CHR ''-'' # show_nat (nat (- i)) else show_nat (nat i))"

text \<open>
  A template literal substitution of \<open>v\<close> converts \<open>v\<close> to a string. An array is its
  elements joined by commas, with \<open>null\<close> and \<open>undefined\<close> elements empty. A decoded object has no callable \<open>toString\<close>
  of its own: it prints as \<open>[object Object]\<close> through the inherited one, unless an own
  property named \<open>toString\<close> hides that, and then the conversion throws a TypeError.
\<close>

fun toString :: "jsval \<Rightarrow> error + string"
  and join_elems :: "jsval list \<Rightarrow> error + string" where
  "toString Undefined = Inr ''undefined''"
| "toString Null = Inr ''null''"
| "toString (Bool b) = Inr (if b then ''true'' else ''false'')"
| "toString (Num n) = Inr (show_int (sint n))"
| "toString (OtherNum s) = Inr s"
| "toString (Str s) = Inr s"
| "toString (Arr xs) = join_elems xs"
| "toString (Obj kvs) =
     (if map_of kvs ''toString'' = None then Inr ''[object Object]'' else Inl TypeError)"
| "join_elems [] = Inr []"
| "join_elems [x] = (if x = Undefined \<or> x = Null then Inr [] else toString x)"
| "join_elems (x # y # ys) =
     (case (if x = Undefined \<or> x = Null then Inr [] else toString x) of
        Inl e \<Rightarrow> Inl e
      | Inr s \<Rightarrow> (case join_elems (y # ys) of Inl e \<Rightarrow> Inl e | Inr r \<Rightarrow> Inr (s @ '','' @ r)))"

text \<open>\<open>lines.join(sep)\<close> on an array of strings.\<close>

fun join :: "string \<Rightarrow> string list \<Rightarrow> string" where
  "join sep [] = []"
| "join sep [x] = x"
| "join sep (x # y # ys) = x @ sep @ join sep (y # ys)"

text \<open>\<open>s.indexOf(t)\<close>: the first position at which \<open>t\<close> occurs in \<open>s\<close>, or -1.\<close>

fun indexOf_from :: "string \<Rightarrow> string \<Rightarrow> int \<Rightarrow> int" where
  "indexOf_from [] t i = (if t = [] then i else - 1)"
| "indexOf_from (c # cs) t i = (if prefix t (c # cs) then i else indexOf_from cs t (i + 1))"

definition indexOf :: "string \<Rightarrow> string \<Rightarrow> int" where
  "indexOf s t = indexOf_from s t 0"

section \<open>The collaborators of the action\<close>

text \<open>
  An entry of the array \<open>shell-quote\<close>'s \<open>parse\<close> returns: a plain word, or an object
  for a control operator, a glob pattern or a comment. In a template literal a word
  prints as itself and the objects as \<open>[object Object]\<close>.
\<close>

datatype shell_token = Word string | Op string | Glob string | Comment string

fun token_toString :: "shell_token \<Rightarrow> string" where
  "token_toString (Word s) = s"
| "token_toString t = ''[object Object]''"

definition args_toString :: "shell_token list \<Rightarrow> string" where
  "args_toString args = join '','' (map token_toString args)"

text \<open>
  How \<open>exec.exec\<close> ends: the promise resolves (exit code 0), or it is rejected with an
  Error whose message is the only field; either way the stdout listener has received
  the chunks of output, in order.
\<close>

datatype exec_outcome = Resolved "string list" | Rejected string "string list"

text \<open>
  The message of the Error with which \<open>@actions/exec\<close> rejects when the process it ran
  exits with a non-zero code: the text the action has to search, as its comment says.
  An exit code is a non-negative integer below \<open>2^32\<close>, printed as its decimal digits.
\<close>

definition exec_failure_message :: "string \<Rightarrow> nat \<Rightarrow> string" where
  "exec_failure_message toolPath code =
     ''The process '' @ [apostrophe] @ toolPath @ [apostrophe] @ '' failed with exit code '' @ show_nat code"

record env =
  getInput :: "string \<Rightarrow> string"
  shellParse :: "string \<Rightarrow> error + shell_token list"
  exec :: "string \<Rightarrow> shell_token list \<Rightarrow> exec_outcome"
  JSON_parse :: "string \<Rightarrow> error + jsval"

text \<open>What the action does to the outside, in the order it does it.\<close>

datatype channel = ErrorChannel | WarningChannel | NoticeChannel

record annotation_properties =
  title :: string
  file_prop :: jsval
  startLine :: jsval
  endLine :: jsval
  startColumn :: jsval
  endColumn :: jsval

datatype logged = ExecError string | Thrown error

datatype event =
    ExecCall string "shell_token list"
  | SetFailed jsval
  | ConsoleError logged
  | Annotation channel string annotation_properties

section \<open>The action\<close>

subsection \<open>annotationProperties and annotationMessage\<close>

text \<open>One substitution \<open>${message.key}\<close> of a template literal.\<close>

definition subst :: "jsval \<Rightarrow> string \<Rightarrow> error + string" where
  "subst message k = bind (get_prop message k) toString"

definition annotationProperties :: "jsval \<Rightarrow> error + annotation_properties" where
  "annotationProperties message =
     bind (subst message ''type'') (\<lambda>t.
     bind (subst message ''message-id'') (\<lambda>i.
     bind (subst message ''symbol'') (\<lambda>s.
     bind (get_prop message ''path'') (\<lambda>p.
     bind (get_prop message ''line'') (\<lambda>l1.
     bind (get_prop message ''line'') (\<lambda>l2.
     bind (get_prop message ''column'') (\<lambda>c1.
     bind (get_prop message ''column'') (\<lambda>c2.
       Inr \<lparr> title = ''Linter '' @ t @ '' '' @ i @ '' ('' @ s @ '')'',
             file_prop = p,
             startLine = l1,
             endLine = l2,
             startColumn = c1,
             endColumn = c2 \<rparr>))))))))"

definition annotationMessage :: "jsval \<Rightarrow> error + string" where
  "annotationMessage message =
     bind (subst message ''message'') (\<lambda>m.
     bind (get_prop message ''obj'') (\<lambda>obj.
     bind (if truthy obj then Inr obj else get_prop message ''module'') (\<lambda>ctx.
     bind (toString ctx) (\<lambda>c.
     bind (subst message ''path'') (\<lambda>p.
     bind (subst message ''line'') (\<lambda>l.
     bind (subst message ''column'') (\<lambda>col.
       Inr (m @ [newline, newline] @ c @ '' ('' @ p @ '':'' @ l @ '':'' @ col @ '')''))))))))"

subsection \<open>reportResults\<close>

text \<open>\<open>pylintMessages.filter(message => message.type === severity)\<close> on an array.\<close>

fun filter_type :: "string \<Rightarrow> jsval list \<Rightarrow> error + jsval list" where
  "filter_type severity [] = Inr []"
| "filter_type severity (message # rest) =
     bind (get_prop message ''type'') (\<lambda>t.
     bind (filter_type severity rest) (\<lambda>kept.
       Inr (if t = Str severity then message # kept else kept)))"

record buckets =
  pylintErrors :: "jsval list"
  pylintWarnings :: "jsval list"
  pylintConvention :: "jsval list"
  pylintRefactor :: "jsval list"
  pylintInfo :: "jsval list"

text \<open>Lines 68 to 72. Only an array has a \<open>filter\<close> method: a decoded value of any other
  kind makes the first call throw a TypeError.\<close>

fun classify :: "jsval \<Rightarrow> error + buckets" where
  "classify (Arr pylintMessages) =
     bind (filter_type ''error'' pylintMessages) (\<lambda>es.
     bind (filter_type ''warning'' pylintMessages) (\<lambda>ws.
     bind (filter_type ''convention'' pylintMessages) (\<lambda>cs.
     bind (filter_type ''refactor'' pylintMessages) (\<lambda>rs.
     bind (filter_type ''info'' pylintMessages) (\<lambda>is.
       Inr \<lparr> pylintErrors = es, pylintWarnings = ws, pylintConvention = cs,
             pylintRefactor = rs, pylintInfo = is \<rparr>)))))"
| "classify v = Inl TypeError"

definition summaryTitle :: "shell_token list \<Rightarrow> string" where
  "summaryTitle pylintArgs =
     ''Pylint linter issues detected: (options '' @ [apostrophe] @ args_toString pylintArgs
       @ [apostrophe] @ '')''"

text \<open>The length of an array is an integer below \<open>2^32\<close>, so its conversion to string is
  its decimal digits.\<close>

definition appendToSummaryIfNonEmpty :: "string list \<Rightarrow> jsval list \<Rightarrow> string \<Rightarrow> string list" where
  "appendToSummaryIfNonEmpty summaryLines messages severity =
     (if length messages = 0 then summaryLines
      else summaryLines @ [show_nat (length messages) @ '' '' @ severity])"

definition summaryLines :: "buckets \<Rightarrow> shell_token list \<Rightarrow> string list" where
  "summaryLines b pylintArgs =
     appendToSummaryIfNonEmpty
       (appendToSummaryIfNonEmpty
         (appendToSummaryIfNonEmpty
           (appendToSummaryIfNonEmpty
             (appendToSummaryIfNonEmpty [summaryTitle pylintArgs] (pylintErrors b) ''error'')
             (pylintWarnings b) ''warning'')
           (pylintConvention b) ''convention'')
         (pylintRefactor b) ''refactor'')
       (pylintInfo b) ''info''"

text \<open>
  A statement sequence with effects: the events of the first part, then those of the
  second unless the first part threw.
\<close>

fun and_then :: "event list \<times> error option \<Rightarrow> event list \<times> error option \<Rightarrow> event list \<times> error option" where
  "and_then (evs, None) r = (evs @ fst r, snd r)"
| "and_then (evs, Some e) r = (evs, Some e)"

text \<open>\<open>messages.forEach(message => emit(annotationMessage(message),
  annotationProperties(message)))\<close> for one of \<open>core.error\<close>, \<open>core.warning\<close>, \<open>core.notice\<close>.\<close>

fun forEach_annotate :: "channel \<Rightarrow> jsval list \<Rightarrow> event list \<times> error option" where
  "forEach_annotate ch [] = ([], None)"
| "forEach_annotate ch (message # rest) =
     (case annotationMessage message of
        Inl e \<Rightarrow> ([], Some e)
      | Inr body \<Rightarrow>
          (case annotationProperties message of
             Inl e \<Rightarrow> ([], Some e)
           | Inr props \<Rightarrow> and_then ([Annotation ch body props], None) (forEach_annotate ch rest)))"

definition reportResults :: "jsval \<Rightarrow> shell_token list \<Rightarrow> event list \<times> error option" where
  "reportResults pylintMessages pylintArgs =
     (case classify pylintMessages of
        Inl e \<Rightarrow> ([], Some e)
      | Inr b \<Rightarrow>
          and_then ([SetFailed (Str (join [newline, newline] (summaryLines b pylintArgs)))], None)
         (and_then (forEach_annotate ErrorChannel (pylintErrors b))
         (and_then (forEach_annotate WarningChannel
                      (pylintWarnings b @ pylintRefactor b @ pylintConvention b))
                   (forEach_annotate NoticeChannel (pylintInfo b)))))"

subsection \<open>run\<close>

text \<open>The test of line 41 on the message of the rejection.\<close>

definition is_usage_error :: "string \<Rightarrow> bool" where
  "is_usage_error message = (indexOf message ''exit code 32'' > 0)"

text \<open>The handler given to \<open>catch\<close>: \<open>pylintOutput\<close> is what the listener has gathered.\<close>

definition on_rejected :: "env \<Rightarrow> shell_token list \<Rightarrow> string \<Rightarrow> string \<Rightarrow> event list" where
  "on_rejected e pylintArgs message pylintOutput =
     (if is_usage_error message then [ConsoleError (ExecError message), SetFailed Undefined]
      else
        (case JSON_parse e pylintOutput of
           Inl reportingError \<Rightarrow>
             [ConsoleError (ExecError message), ConsoleError (Thrown reportingError)]
         | Inr decoded \<Rightarrow>
             (case reportResults decoded pylintArgs of
                (evs, None) \<Rightarrow> evs
              | (evs, Some reportingError) \<Rightarrow>
                  evs @ [ConsoleError (ExecError message), ConsoleError (Thrown reportingError)])))"

text \<open>
  \<open>run\<close>: the events of one run, and the exception that escapes it if the tokenizer
  throws (nothing catches that one).
\<close>

definition run :: "env \<Rightarrow> event list \<times> error option" where
  "run e =
     (case shellParse e (getInput e ''pylint-args'') of
        Inl err \<Rightarrow> ([], Some err)
      | Inr tokens \<Rightarrow>
          (let pylintArgs = tokens @ [Word ''--output-format=json'']
           in (ExecCall ''pylint'' pylintArgs #
                 (case exec e ''pylint'' pylintArgs of
                    Resolved chunks \<Rightarrow> []
                  | Rejected message chunks \<Rightarrow>
                      on_rejected e pylintArgs message (concat chunks)),
               None)))"

section \<open>Vocabulary of the properties\<close>

text \<open>A value whose properties can be read: anything but \<open>null\<close> and \<open>undefined\<close>.\<close>

definition readable :: "jsval \<Rightarrow> bool" where
  "readable v = (v \<noteq> Undefined \<and> v \<noteq> Null)"

text \<open>The diagnostic's \<open>type\<close> field is the string \<open>severity\<close>.\<close>

definition has_type :: "string \<Rightarrow> jsval \<Rightarrow> bool" where
  "has_type severity m = (get_prop m ''type'' = Inr (Str severity))"

definition severities :: "string list" where
  "severities = [''error'', ''warning'', ''convention'', ''refactor'', ''info'']"

definition recognized :: "jsval \<Rightarrow> bool" where
  "recognized m = (\<exists>s \<in> set severities. has_type s m)"

text \<open>The five buckets, in the order of \<open>severities\<close>.\<close>

definition all_buckets :: "buckets \<Rightarrow> jsval list list" where
  "all_buckets b =
     [pylintErrors b, pylintWarnings b, pylintConvention b, pylintRefactor b, pylintInfo b]"

text \<open>The buckets as filters of the input.\<close>

definition filtered :: "jsval list \<Rightarrow> buckets" where
  "filtered msgs =
     \<lparr> pylintErrors = filter (has_type ''error'') msgs,
       pylintWarnings = filter (has_type ''warning'') msgs,
       pylintConvention = filter (has_type ''convention'') msgs,
       pylintRefactor = filter (has_type ''refactor'') msgs,
       pylintInfo = filter (has_type ''info'') msgs \<rparr>"

text \<open>Both arguments of the annotation call can be computed for this diagnostic.\<close>

definition annotatable :: "jsval \<Rightarrow> bool" where
  "annotatable m = (\<not> isl (annotationMessage m) \<and> \<not> isl (annotationProperties m))"

text \<open>The annotation of a diagnostic on a channel.\<close>

definition emitted :: "channel \<Rightarrow> jsval \<Rightarrow> event" where
  "emitted ch m = Annotation ch (projr (annotationMessage m)) (projr (annotationProperties m))"

fun is_annotation :: "event \<Rightarrow> bool" where
  "is_annotation (Annotation ch body props) = True"
| "is_annotation ev = False"

fun is_set_failed :: "event \<Rightarrow> bool" where
  "is_set_failed (SetFailed v) = True"
| "is_set_failed ev = False"

fun is_exec_call :: "event \<Rightarrow> bool" where
  "is_exec_call (ExecCall tool args) = True"
| "is_exec_call ev = False"

text \<open>
  The emission order as the specification words it: the error diagnostics, then the
  diagnostics of type warning, refactor or convention as one group in their input order,
  then the info diagnostics.
\<close>

definition spec_emission_order :: "jsval list \<Rightarrow> event list" where
  "spec_emission_order msgs =
     map (emitted ErrorChannel) (filter (has_type ''error'') msgs)
     @ map (emitted WarningChannel)
         (filter (\<lambda>m. has_type ''warning'' m \<or> has_type ''refactor'' m \<or> has_type ''convention'' m) msgs)
     @ map (emitted NoticeChannel) (filter (has_type ''info'') msgs)"

text \<open>
  The entries of the summary as the specification words them: one per non-empty bucket,
  count then severity name, in the fixed order.
\<close>

definition spec_summary_entries :: "jsval list \<Rightarrow> string list" where
  "spec_summary_entries msgs =
     map (\<lambda>s. show_nat (length (filter (has_type s) msgs)) @ '' '' @ s)
       (filter (\<lambda>s. filter (has_type s) msgs \<noteq> []) severities)"

subsection \<open>The argument list as the specification words it\<close>





subsection \<open>Sample inputs\<close>

definition diag_error :: jsval where
  "diag_error = Obj [(''type'', Str ''error''), (''message'', Str ''bad''),
     (''message-id'', Str ''E1''), (''symbol'', Str ''bad-thing''), (''path'', Str ''a.py''),
     (''line'', Num 3), (''column'', Num 1), (''obj'', Str ''foo'')]"

definition diag_warning :: jsval where
  "diag_warning = Obj [(''type'', Str ''warning''), (''message'', Str ''unused''),
     (''message-id'', Str ''W0611''), (''symbol'', Str ''unused-import''), (''path'', Str ''b.py''),
     (''line'', Num 10), (''column'', Num 0), (''obj'', Str []), (''module'', Str ''b'')]"

definition diag_refactor :: jsval where
  "diag_refactor = Obj [(''type'', Str ''refactor''), (''message'', Str ''too many''),
     (''message-id'', Str ''R0913''), (''symbol'', Str ''too-many-arguments''), (''path'', Str ''c.py''),
     (''line'', Num 12), (''column'', Num 4), (''module'', Str ''c'')]"

definition diag_fatal :: jsval where
  "diag_fatal = Obj [(''type'', Str ''fatal''), (''message'', Str ''crash''),
     (''message-id'', Str ''F0001''), (''symbol'', Str ''fatal''), (''path'', Str ''d.py''),
     (''line'', Num 1), (''column'', Num 0), (''module'', Str ''d'')]"

abbreviation json_flag :: shell_token where
  "json_flag \<equiv> Word ''--output-format=json''"

definition quoted :: "string \<Rightarrow> string" where
  "quoted s = [CHR 0x22] @ s @ [CHR 0x22]"

text \<open>The output of a pylint run whose only finding is \<open>diag_error\<close>.\<close>

definition diag_error_text :: string where
  "diag_error_text =
     ''[{'' @ quoted ''type'' @ '':'' @ quoted ''error'' @ '','' @ quoted ''message'' @ '':''
     @ quoted ''bad'' @ '','' @ quoted ''message-id'' @ '':'' @ quoted ''E1'' @ '',''
     @ quoted ''symbol'' @ '':'' @ quoted ''bad-thing'' @ '','' @ quoted ''path'' @ '':''
     @ quoted ''a.py'' @ '','' @ quoted ''line'' @ '':3,'' @ quoted ''column'' @ '':1,''
     @ quoted ''obj'' @ '':'' @ quoted ''foo'' @ ''}]''"

text \<open>
  A run whose collaborators are fixed: the input string, the tokens the tokenizer makes of
  it, how the process ends, and the one text the decoder accepts with its value.
\<close>

definition sample_env :: "string \<Rightarrow> shell_token list \<Rightarrow> exec_outcome \<Rightarrow> string \<Rightarrow> jsval \<Rightarrow> env" where
  "sample_env input tokens outcome text decoded =
     \<lparr> getInput = (\<lambda>name. if name = ''pylint-args'' then input else []),
       shellParse = (\<lambda>s. if s = input then Inr tokens else Inl ParseError),
       exec = (\<lambda>tool args. outcome),
       JSON_parse = (\<lambda>s. if s = text then Inr decoded else Inl SyntaxError) \<rparr>"

section \<open>Reads and filters\<close>

lemma bind_Inl [simp]: "bind (Inl e) k = Inl e"
  by (simp add: bind_def)

lemma bind_Inr [simp]: "bind (Inr x) k = k x"
  by (simp add: bind_def)

lemma get_prop_readable: "readable m \<Longrightarrow> \<exists>v. get_prop m k = Inr v"
  by (cases m) (auto simp: readable_def split: option.splits)

lemma get_prop_unreadable: "\<not> readable m \<Longrightarrow> get_prop m k = Inl TypeError"
  by (cases m) (auto simp: readable_def)

lemma filter_type_readable:
  "\<forall>m \<in> set msgs. readable m \<Longrightarrow> filter_type s msgs = Inr (filter (has_type s) msgs)"
proof (induction msgs)
  case Nil
  show ?case by simp
next
  case (Cons m msgs)
  from Cons.prems have "readable m" by simp
  then obtain v where v: "get_prop m ''type'' = Inr v"
    using get_prop_readable by blast
  from Cons have ih: "filter_type s msgs = Inr (filter (has_type s) msgs)" by simp
  have t: "(v = Str s) = has_type s m" by (simp add: has_type_def v)
  show ?case by (simp add: v ih t)
qed

lemma filter_type_unreadable:
  "\<exists>m \<in> set msgs. \<not> readable m \<Longrightarrow> filter_type s msgs = Inl TypeError"
proof (induction msgs)
  case Nil
  then show ?case by simp
next
  case (Cons m msgs)
  show ?case
  proof (cases "readable m")
    case True
    then obtain v where v: "get_prop m ''type'' = Inr v"
      using get_prop_readable by blast
    from True Cons have "filter_type s msgs = Inl TypeError" by auto
    then show ?thesis by (simp add: v)
  next
    case False
    then show ?thesis by (simp add: get_prop_unreadable)
  qed
qed

lemma classify_readable:
  assumes "\<forall>m \<in> set msgs. readable m"
  shows "classify (Arr msgs) =
     Inr \<lparr> pylintErrors = filter (has_type ''error'') msgs,
           pylintWarnings = filter (has_type ''warning'') msgs,
           pylintConvention = filter (has_type ''convention'') msgs,
           pylintRefactor = filter (has_type ''refactor'') msgs,
           pylintInfo = filter (has_type ''info'') msgs \<rparr>"
  by (simp add: filter_type_readable [OF assms])

lemma has_type_unique: "has_type s m \<Longrightarrow> has_type t m \<Longrightarrow> s = t"
  by (simp add: has_type_def)

lemma filter_disjoint:
  "s \<noteq> t \<Longrightarrow> set (filter (has_type s) msgs) \<inter> set (filter (has_type t) msgs) = {}"
  using has_type_unique by auto

lemma bucket_sizes_le:
  "length (filter (has_type ''error'') msgs) + length (filter (has_type ''warning'') msgs)
   + length (filter (has_type ''convention'') msgs) + length (filter (has_type ''refactor'') msgs)
   + length (filter (has_type ''info'') msgs) \<le> length msgs"
  by (induction msgs) (auto simp: has_type_def)

lemma bucket_sizes_eq:
  "\<forall>m \<in> set msgs. recognized m \<Longrightarrow>
   length (filter (has_type ''error'') msgs) + length (filter (has_type ''warning'') msgs)
   + length (filter (has_type ''convention'') msgs) + length (filter (has_type ''refactor'') msgs)
   + length (filter (has_type ''info'') msgs) = length msgs"
  by (induction msgs) (auto simp: has_type_def recognized_def severities_def)

section \<open>The classifier\<close>

text \<open>
  Claim C4. For a decoded list whose elements can all be read, the classifier returns
  five buckets; the bucket of each severity is the input filtered by "the type field is
  that string", so in input order; two different buckets share no element; the sizes add
  up to at most the length of the input, and to exactly that length when every element
  has one of the five types; an element of any other type is in no bucket, and the
  classifier still returns.
\<close>
theorem classify_partitions:
  assumes "\<forall>m \<in> set msgs. readable m"
  shows "\<exists>b. classify (Arr msgs) = Inr b
    \<and> all_buckets b = map (\<lambda>s. filter (has_type s) msgs) severities
    \<and> (\<forall>i < 5. \<forall>j < 5. i \<noteq> j \<longrightarrow> set (all_buckets b ! i) \<inter> set (all_buckets b ! j) = {})
    \<and> sum_list (map length (all_buckets b)) \<le> length msgs
    \<and> ((\<forall>m \<in> set msgs. recognized m) \<longrightarrow> sum_list (map length (all_buckets b)) = length msgs)
    \<and> (\<forall>m \<in> set msgs. \<not> recognized m \<longrightarrow> (\<forall>bucket \<in> set (all_buckets b). m \<notin> set bucket))"
proof -
  let ?b = "\<lparr> pylintErrors = filter (has_type ''error'') msgs,
           pylintWarnings = filter (has_type ''warning'') msgs,
           pylintConvention = filter (has_type ''convention'') msgs,
           pylintRefactor = filter (has_type ''refactor'') msgs,
           pylintInfo = filter (has_type ''info'') msgs \<rparr>"
  have c: "classify (Arr msgs) = Inr ?b" by (rule classify_readable [OF assms])
  have ab: "all_buckets ?b = map (\<lambda>s. filter (has_type s) msgs) severities"
    by (simp add: all_buckets_def severities_def)
  have distinct_names: "distinct severities" by (simp add: severities_def)
  have len5: "length severities = 5" by (simp add: severities_def)
  have dj: "\<forall>i < 5. \<forall>j < 5. i \<noteq> j \<longrightarrow> set (all_buckets ?b ! i) \<inter> set (all_buckets ?b ! j) = {}"
  proof (intro allI impI)
    fix i j :: nat
    assume ij: "i < 5" "j < 5" "i \<noteq> j"
    then have "severities ! i \<noteq> severities ! j"
      using distinct_names len5 by (simp add: nth_eq_iff_index_eq)
    then show "set (all_buckets ?b ! i) \<inter> set (all_buckets ?b ! j) = {}"
      using ij len5 by (simp only: ab) (simp add: filter_disjoint del: set_filter)
  qed
  have sz: "sum_list (map length (all_buckets ?b)) \<le> length msgs"
    using bucket_sizes_le [of msgs] by (simp add: all_buckets_def)
  have eq: "(\<forall>m \<in> set msgs. recognized m) \<longrightarrow> sum_list (map length (all_buckets ?b)) = length msgs"
    using bucket_sizes_eq [of msgs] by (auto simp: all_buckets_def)
  have un: "\<forall>m \<in> set msgs. \<not> recognized m \<longrightarrow> (\<forall>bucket \<in> set (all_buckets ?b). m \<notin> set bucket)"
    by (auto simp: all_buckets_def recognized_def severities_def)
  from c ab dj sz eq un show ?thesis by blast
qed

theorem classify_partitions_witness:
  "(\<exists>b. classify (Arr [diag_refactor, diag_error, diag_warning]) = Inr b
      \<and> all_buckets b = [[diag_error], [diag_warning], [], [diag_refactor], []]
      \<and> sum_list (map length (all_buckets b)) = 3)
   \<and> (\<exists>b. classify (Arr [diag_fatal, diag_error]) = Inr b
      \<and> all_buckets b = [[diag_error], [], [], [], []]
      \<and> sum_list (map length (all_buckets b)) = 1
      \<and> (\<exists>bucket \<in> set (all_buckets b). diag_error \<in> set bucket))"
  using classify_partitions [of "[diag_refactor, diag_error, diag_warning]"]
    classify_partitions [of "[diag_fatal, diag_error]"]
  by (simp add: readable_def diag_refactor_def diag_error_def diag_warning_def diag_fatal_def
      has_type_def severities_def recognized_def all_buckets_def)

section \<open>Annotations and the report\<close>

lemma annotatable_readable: "annotatable m \<Longrightarrow> readable m"
  by (cases m) (auto simp: annotatable_def readable_def annotationMessage_def subst_def)

lemma forEach_annotatable:
  "\<forall>m \<in> set ms. annotatable m \<Longrightarrow> forEach_annotate ch ms = (map (emitted ch) ms, None)"
proof (induction ms)
  case Nil
  show ?case by simp
next
  case (Cons m ms)
  from Cons.prems have "annotatable m" by simp
  then obtain body props where
    b: "annotationMessage m = Inr body" and p: "annotationProperties m = Inr props"
    by (cases "annotationMessage m"; cases "annotationProperties m") (auto simp: annotatable_def)
  from Cons have ih: "forEach_annotate ch ms = (map (emitted ch) ms, None)" by simp
  show ?case by (simp add: b p ih emitted_def)
qed

lemma forEach_only_annotations:
  "\<forall>ev \<in> set (fst (forEach_annotate ch ms)). is_annotation ev"
  by (induction ms) (auto split: sum.splits)

lemma and_then_events:
  "set (fst (and_then a b)) \<subseteq> set (fst a) \<union> set (fst b)"
  by (cases a; cases "snd a") auto

lemma and_then_single: "and_then ([ev], None) r = (ev # fst r, snd r)"
  by simp

lemma classify_filtered:
  "\<forall>m \<in> set msgs. readable m \<Longrightarrow> classify (Arr msgs) = Inr (filtered msgs)"
  unfolding filtered_def by (rule classify_readable)

lemma summaryLines_filtered:
  "summaryLines (filtered msgs) args = summaryTitle args # spec_summary_entries msgs"
  by (simp add: summaryLines_def appendToSummaryIfNonEmpty_def spec_summary_entries_def
      severities_def filtered_def)

lemma reportResults_readable:
  assumes "\<forall>m \<in> set msgs. readable m"
  shows "\<exists>rest thrown. reportResults (Arr msgs) args =
      (SetFailed (Str (join [newline, newline] (summaryLines (filtered msgs) args))) # rest, thrown)
    \<and> (\<forall>ev \<in> set rest. is_annotation ev)"
proof -
  let ?b = "filtered msgs"
  let ?tail = "and_then (forEach_annotate ErrorChannel (pylintErrors ?b))
         (and_then (forEach_annotate WarningChannel
                      (pylintWarnings ?b @ pylintRefactor ?b @ pylintConvention ?b))
                   (forEach_annotate NoticeChannel (pylintInfo ?b)))"
  have r: "reportResults (Arr msgs) args =
      (SetFailed (Str (join [newline, newline] (summaryLines ?b args))) # fst ?tail, snd ?tail)"
    by (simp add: reportResults_def classify_filtered [OF assms] del: classify.simps)
  have "set (fst ?tail) \<subseteq> set (fst (forEach_annotate ErrorChannel (pylintErrors ?b)))
      \<union> (set (fst (forEach_annotate WarningChannel
                      (pylintWarnings ?b @ pylintRefactor ?b @ pylintConvention ?b)))
      \<union> set (fst (forEach_annotate NoticeChannel (pylintInfo ?b))))"
    using and_then_events by (meson Un_mono order_refl order_trans)
  then have "\<forall>ev \<in> set (fst ?tail). is_annotation ev"
    using forEach_only_annotations by blast
  with r show ?thesis by blast
qed

lemma reportResults_annotatable:
  assumes "\<forall>m \<in> set msgs. annotatable m"
  shows "reportResults (Arr msgs) args =
      (SetFailed (Str (join [newline, newline] (summaryLines (filtered msgs) args)))
       # map (emitted ErrorChannel) (filter (has_type ''error'') msgs)
       @ map (emitted WarningChannel)
           (filter (has_type ''warning'') msgs @ filter (has_type ''refactor'') msgs
            @ filter (has_type ''convention'') msgs)
       @ map (emitted NoticeChannel) (filter (has_type ''info'') msgs), None)"
proof -
  from assms have rd: "\<forall>m \<in> set msgs. readable m"
    using annotatable_readable by blast
  have fe: "\<And>ch P. forEach_annotate ch (filter P msgs) = (map (emitted ch) (filter P msgs), None)"
    using assms by (intro forEach_annotatable) simp
  have fw: "forEach_annotate WarningChannel
       (filter (has_type ''warning'') msgs @ filter (has_type ''refactor'') msgs
            @ filter (has_type ''convention'') msgs)
     = (map (emitted WarningChannel) (filter (has_type ''warning'') msgs @ filter (has_type ''refactor'') msgs
            @ filter (has_type ''convention'') msgs), None)"
    using assms by (intro forEach_annotatable) auto
  show ?thesis
    using fw by (simp add: reportResults_def classify_filtered [OF rd] fe del: classify.simps)
       (simp add: filtered_def fe)
qed

section \<open>Order of the annotations\<close>

text \<open>
  Claim C1, as amended. For a decoded list whose diagnostics can all be annotated, the
  reporter completes and its annotations are, in this order: the error diagnostics on the
  error channel; then on the warning channel all warning diagnostics, then all refactor
  diagnostics, then all convention diagnostics; then the info diagnostics on the notice
  channel; each group in input order.
\<close>

theorem emission_order_by_severity:
  assumes "\<forall>m \<in> set msgs. annotatable m"
  shows "filter is_annotation (fst (reportResults (Arr msgs) args)) =
       map (emitted ErrorChannel) (filter (has_type ''error'') msgs)
       @ map (emitted WarningChannel) (filter (has_type ''warning'') msgs)
       @ map (emitted WarningChannel) (filter (has_type ''refactor'') msgs)
       @ map (emitted WarningChannel) (filter (has_type ''convention'') msgs)
       @ map (emitted NoticeChannel) (filter (has_type ''info'') msgs)
     \<and> snd (reportResults (Arr msgs) args) = None"
proof -
  have e: "\<And>ch ms. filter is_annotation (map (emitted ch) ms) = map (emitted ch) ms"
    by (simp add: emitted_def filter_id_conv)
  show ?thesis
    by (simp add: reportResults_annotatable [OF assms] e)
qed

theorem emission_order_by_severity_witness:
  "filter is_annotation
     (fst (reportResults (Arr [diag_refactor, diag_error, diag_warning]) [json_flag])) =
     [emitted ErrorChannel diag_error, emitted WarningChannel diag_warning,
      emitted WarningChannel diag_refactor]"
  using emission_order_by_severity [of "[diag_refactor, diag_error, diag_warning]" "[json_flag]"]
  by (simp add: annotatable_def annotationMessage_def annotationProperties_def subst_def
      diag_refactor_def diag_error_def diag_warning_def has_type_def)

text \<open>
  Claim C1 as the specification states it asks for the warning, refactor and convention
  diagnostics as one group in input order. On the input [refactor, warning] the reporter
  annotates the warning first.
\<close>

theorem merged_group_not_in_input_order:
  "filter is_annotation (fst (reportResults (Arr [diag_refactor, diag_warning]) [json_flag]))
     \<noteq> spec_emission_order [diag_refactor, diag_warning]"
  by (simp add: reportResults_def spec_emission_order_def emitted_def
      annotationMessage_def annotationProperties_def subst_def
      diag_refactor_def diag_warning_def has_type_def)

section \<open>The failure summary\<close>



section \<open>One run\<close>


lemma annotation_not_others: "is_annotation ev \<Longrightarrow> \<not> is_set_failed ev \<and> \<not> is_exec_call ev"
  by (cases ev) auto



lemma run_tokens:
  assumes "shellParse e (getInput e ''pylint-args'') = Inr tokens"
  shows "run e = (ExecCall ''pylint'' (tokens @ [json_flag]) #
                 (case exec e ''pylint'' (tokens @ [json_flag]) of
                    Resolved chunks \<Rightarrow> []
                  | Rejected message chunks \<Rightarrow>
                      on_rejected e (tokens @ [json_flag]) message (concat chunks)), None)"
  by (simp add: run_def assms Let_def)

section \<open>The argument list\<close>




section \<open>The failure signal\<close>

text \<open>
  Claim C8. When the process fails with a code other than the usage error and its output
  decodes to a list of diagnostics (empty or not, every element can be read), the run
  starts the process, then sets the failure with the summary as its message, and only
  then annotates: no later event sets the failure, so it is set exactly once in the run.
\<close>

theorem failed_once_before_annotations:
  assumes "shellParse e (getInput e ''pylint-args'') = Inr tokens"
    and "exec e ''pylint'' (tokens @ [Word ''--output-format=json'']) = Rejected message chunks"
    and "\<not> is_usage_error message"
    and "JSON_parse e (concat chunks) = Inr (Arr msgs)"
    and "\<forall>m \<in> set msgs. readable m"
  shows "\<exists>rest. fst (run e) =
        ExecCall ''pylint'' (tokens @ [Word ''--output-format=json''])
        # SetFailed (Str (join [newline, newline]
            (summaryTitle (tokens @ [Word ''--output-format=json'']) # spec_summary_entries msgs)))
        # rest
      \<and> (\<forall>ev \<in> set rest. \<not> is_set_failed ev)
      \<and> length (filter is_set_failed (fst (run e))) = 1"
proof -
  let ?args = "tokens @ [json_flag]"
  obtain rest thrown where
    r: "reportResults (Arr msgs) ?args =
      (SetFailed (Str (join [newline, newline] (summaryLines (filtered msgs) ?args))) # rest, thrown)"
    and a: "\<forall>ev \<in> set rest. is_annotation ev"
    using reportResults_readable [OF assms(5), of ?args] by blast
  let ?extra = "case thrown of None \<Rightarrow> []
     | Some err \<Rightarrow> [ConsoleError (ExecError message), ConsoleError (Thrown err)]"
  have o: "on_rejected e ?args message (concat chunks) =
      SetFailed (Str (join [newline, newline] (summaryLines (filtered msgs) ?args))) # rest @ ?extra"
    using assms(3,4) r by (simp add: on_rejected_def split: option.splits)
  have n: "\<forall>ev \<in> set (rest @ ?extra). \<not> is_set_failed ev"
    using a annotation_not_others by (auto split: option.splits)
  then have f: "filter is_set_failed (rest @ ?extra) = []"
    by (simp only: filter_empty_conv)
  have "fst (run e) = ExecCall ''pylint'' ?args
      # SetFailed (Str (join [newline, newline] (summaryLines (filtered msgs) ?args)))
      # (rest @ ?extra)"
    using run_tokens [OF assms(1)] assms(2) o by (simp add:)
  with n f show ?thesis
    by (simp add: summaryLines_filtered)
qed

theorem failed_once_before_annotations_witness:
  "fst (run (sample_env ''src'' [Word ''src'']
          (Rejected (exec_failure_message ''/usr/bin/pylint'' 2) [''[{'', drop 2 diag_error_text])
          diag_error_text (Arr [diag_error])))
   = [ExecCall ''pylint'' [Word ''src'', Word ''--output-format=json''],
      SetFailed (Str (''Pylint linter issues detected: (options '' @ [apostrophe]
        @ ''src,--output-format=json'' @ [apostrophe] @ '')'' @ [newline, newline] @ ''1 error'')),
      Annotation ErrorChannel (''bad'' @ [newline, newline] @ ''foo (a.py:3:1)'')
        \<lparr> title = ''Linter error E1 (bad-thing)'', file_prop = Str ''a.py'',
          startLine = Num 3, endLine = Num 3, startColumn = Num 1, endColumn = Num 1 \<rparr>]"
  using failed_once_before_annotations
      [of "sample_env ''src'' [Word ''src'']
          (Rejected (exec_failure_message ''/usr/bin/pylint'' 2) [''[{'', drop 2 diag_error_text])
          diag_error_text (Arr [diag_error])"
        "[Word ''src'']" "exec_failure_message ''/usr/bin/pylint'' 2"
        "[''[{'', drop 2 diag_error_text]" "[diag_error]"]
  by (simp add: sample_env_def run_def on_rejected_def reportResults_def is_usage_error_def
      indexOf_def exec_failure_message_def show_nat.simps digit_char_def diag_error_text_def
      quoted_def diag_error_def readable_def summaryLines_def appendToSummaryIfNonEmpty_def
      summaryTitle_def args_toString_def annotationMessage_def annotationProperties_def
      subst_def show_int_def)

text \<open>
  When the test of line 41 does not take the message for a usage error and the output
  decodes to the empty array, the run still sets the failure; the message is the title
  line alone, and there is no annotation.
\<close>

lemma empty_list_report:
  assumes "shellParse e (getInput e ''pylint-args'') = Inr tokens"
    and "exec e ''pylint'' (tokens @ [Word ''--output-format=json'']) = Rejected message chunks"
    and "\<not> is_usage_error message"
    and "JSON_parse e (concat chunks) = Inr (Arr [])"
  shows "run e =
     ([ExecCall ''pylint'' (tokens @ [Word ''--output-format=json'']),
       SetFailed (Str (summaryTitle (tokens @ [Word ''--output-format=json''])))], None)"
  using assms
  by (simp add: run_def on_rejected_def reportResults_def summaryLines_def
      appendToSummaryIfNonEmpty_def Let_def)

text \<open>
  The exit code of a process on a POSIX system is below 256. Among these codes the test
  of line 41 takes exactly 32 for the usage error (here for the tool path
  \<open>/usr/bin/pylint\<close>), so with any other of them the empty array is reported as above.
\<close>

lemma posix_codes_scan:
  "list_all (\<lambda>n. is_usage_error (exec_failure_message ''/usr/bin/pylint'' n) = (n = 32))
     [0..<256]"
  by code_simp

lemma posix_codes_usage_error_iff:
  assumes "n < 256"
  shows "is_usage_error (exec_failure_message ''/usr/bin/pylint'' n) = (n = 32)"
  using posix_codes_scan assms by (simp add: list_all_iff)

lemma empty_list_report_for_posix_codes:
  assumes "shellParse e (getInput e ''pylint-args'') = Inr tokens"
    and "exec e ''pylint'' (tokens @ [Word ''--output-format=json''])
           = Rejected (exec_failure_message ''/usr/bin/pylint'' n) chunks"
    and "n < 256" and "n \<noteq> 32"
    and "JSON_parse e (concat chunks) = Inr (Arr [])"
  shows "run e =
     ([ExecCall ''pylint'' (tokens @ [Word ''--output-format=json'']),
       SetFailed (Str (summaryTitle (tokens @ [Word ''--output-format=json''])))], None)"
proof -
  have "\<not> is_usage_error (exec_failure_message ''/usr/bin/pylint'' n)"
    using posix_codes_usage_error_iff [OF assms(3)] assms(4) by simp
  then show ?thesis
    using empty_list_report [OF assms(1,2) _ assms(5)] by simp
qed

text \<open>
  Claim C9 asks that every run whose process exits with a non-zero code other than the
  usage error 32 and whose output decodes to the empty array sets the failure with the
  title line as its message. With exit code 320, or 3221225477, the test of line 41 takes
  the message for a usage error: the run sets the failure with no message and the
  reporter is never called.
\<close>

theorem empty_output_not_reported_at_exit_code_320:
  "run (sample_env ''src'' [Word ''src'']
          (Rejected (exec_failure_message ''/usr/bin/pylint'' 320) [''[]'']) ''[]'' (Arr []))
   = ([ExecCall ''pylint'' [Word ''src'', json_flag],
       ConsoleError (ExecError (''The process '' @ [apostrophe] @ ''/usr/bin/pylint''
          @ [apostrophe] @ '' failed with exit code 320'')),
       SetFailed Undefined], None)
   \<and> run (sample_env ''src'' [Word ''src'']
          (Rejected (exec_failure_message ''C:/Python/Scripts/pylint.exe'' 3221225477) [''[]''])
          ''[]'' (Arr []))
   = ([ExecCall ''pylint'' [Word ''src'', json_flag],
       ConsoleError (ExecError (''The process '' @ [apostrophe] @ ''C:/Python/Scripts/pylint.exe''
          @ [apostrophe] @ '' failed with exit code 3221225477'')),
       SetFailed Undefined], None)
   \<and> fst (run (sample_env ''src'' [Word ''src'']
          (Rejected (exec_failure_message ''/usr/bin/pylint'' 320) [''[]'']) ''[]'' (Arr [])))
     \<noteq> [ExecCall ''pylint'' [Word ''src'', json_flag],
         SetFailed (Str (summaryTitle [Word ''src'', json_flag]))]"
  by (simp add: sample_env_def run_def on_rejected_def is_usage_error_def indexOf_def
      exec_failure_message_def show_nat.simps digit_char_def)

section \<open>Content of an annotation\<close>

text \<open>
  Claim C5. For a diagnostic with string fields type, message-id, symbol, path and
  message and integer fields line and column (integers from \<open>-2^53\<close> to \<open>2^53 - 1\<close>,
  which print as their decimal digits), the annotation has the title
  "Linter type message-id (symbol)", the path as its file, the line as both start and
  end line, the column as both start and end column, and as body the message, a blank
  line, and "label (path:line:column)", where the label is the obj field when that is a
  non-empty string and the module name when there is no obj field.
\<close>

theorem annotation_content:
  assumes "get_prop m ''type'' = Inr (Str ty)"
    and "get_prop m ''message-id'' = Inr (Str mid)"
    and "get_prop m ''symbol'' = Inr (Str symb)"
    and "get_prop m ''path'' = Inr (Str p)"
    and "get_prop m ''line'' = Inr (Num l)"
    and "get_prop m ''column'' = Inr (Num c)"
    and "get_prop m ''message'' = Inr (Str msg)"
    and "get_prop m ''obj'' = Inr (Str label) \<and> label \<noteq> []
       \<or> get_prop m ''obj'' = Inr Undefined \<and> get_prop m ''module'' = Inr (Str label)"
  shows "annotationProperties m =
       Inr \<lparr> title = ''Linter '' @ ty @ '' '' @ mid @ '' ('' @ symb @ '')'',
             file_prop = Str p, startLine = Num l, endLine = Num l,
             startColumn = Num c, endColumn = Num c \<rparr>
     \<and> annotationMessage m =
         Inr (msg @ [newline, newline] @ label
              @ '' ('' @ p @ '':'' @ show_int (sint l) @ '':'' @ show_int (sint c) @ '')'')
     \<and> forEach_annotate ch [m] = ([emitted ch m], None)"
  using assms
  by (auto simp: annotationProperties_def annotationMessage_def subst_def emitted_def)

theorem annotation_content_witness:
  "forEach_annotate ErrorChannel [diag_error] =
     ([Annotation ErrorChannel (''bad'' @ [newline, newline] @ ''foo (a.py:3:1)'')
        \<lparr> title = ''Linter error E1 (bad-thing)'', file_prop = Str ''a.py'',
          startLine = Num 3, endLine = Num 3, startColumn = Num 1, endColumn = Num 1 \<rparr>], None)
   \<and> forEach_annotate WarningChannel [diag_refactor] =
     ([Annotation WarningChannel (''too many'' @ [newline, newline] @ ''c (c.py:12:4)'')
        \<lparr> title = ''Linter refactor R0913 (too-many-arguments)'', file_prop = Str ''c.py'',
          startLine = Num 12, endLine = Num 12, startColumn = Num 4, endColumn = Num 4 \<rparr>], None)"
  using annotation_content [of diag_error "''error''" "''E1''" "''bad-thing''" "''a.py''" 3 1
      "''bad''" "''foo''" ErrorChannel]
    annotation_content [of diag_refactor "''refactor''" "''R0913''" "''too-many-arguments''"
      "''c.py''" 12 4 "''too many''" "''c''" WarningChannel]
  by (simp add: diag_error_def diag_refactor_def emitted_def show_int_def show_nat.simps
      digit_char_def)

text \<open>
  Claim C10. Whenever the obj field is falsy (the empty string, absent, null, and also
  false and 0), the context string of the body is made from the module field.
\<close>

theorem falsy_obj_falls_back_to_module:
  assumes "get_prop m ''obj'' = Inr ov"
    and "ov \<in> {Str [], Undefined, Null, Bool False, Num 0}"
    and "subst m ''message'' = Inr msg"
    and "get_prop m ''module'' = Inr mv"
    and "toString mv = Inr modl"
    and "subst m ''path'' = Inr p"
    and "subst m ''line'' = Inr l"
    and "subst m ''column'' = Inr c"
  shows "annotationMessage m =
     Inr (msg @ [newline, newline] @ modl @ '' ('' @ p @ '':'' @ l @ '':'' @ c @ '')'')"
  using assms by (auto simp: annotationMessage_def)

theorem falsy_obj_falls_back_to_module_witness:
  "annotationMessage diag_warning = Inr (''unused'' @ [newline, newline] @ ''b (b.py:10:0)'')
   \<and> get_prop diag_warning ''obj'' = Inr (Str [])"
  using falsy_obj_falls_back_to_module [of diag_warning "Str []" "''unused''" "Str ''b''" "''b''"
      "''b.py''" "''10''" "''0''"]
  by (simp add: diag_warning_def subst_def show_int_def show_nat.simps digit_char_def)

section \<open>Failures of the process\<close>

lemma undecodable_output_trace:
  assumes "shellParse e (getInput e ''pylint-args'') = Inr tokens"
    and "exec e ''pylint'' (tokens @ [json_flag]) = Rejected message chunks"
    and "\<not> is_usage_error message"
    and "JSON_parse e (concat chunks) = Inl err"
  shows "run e = ([ExecCall ''pylint'' (tokens @ [json_flag]),
                   ConsoleError (ExecError message), ConsoleError (Thrown err)], None)"
  using assms by (simp add: run_def on_rejected_def Let_def)

lemma usage_error_trace:
  assumes "shellParse e (getInput e ''pylint-args'') = Inr tokens"
    and "exec e ''pylint'' (tokens @ [json_flag]) = Rejected message chunks"
    and "is_usage_error message"
  shows "run e = ([ExecCall ''pylint'' (tokens @ [json_flag]),
                   ConsoleError (ExecError message), SetFailed Undefined], None)"
  using assms by (simp add: run_def on_rejected_def Let_def)

text \<open>
  Claim C2 asks that a run whose process fails with a code other than the usage error and
  whose output cannot be decoded is marked failed. The run logs the two errors and
  emits no annotation, but nothing sets the failure: here the process exits with code 2
  and the output stops after its first two characters.
\<close>

theorem undecodable_output_run_not_failed:
  "run (sample_env ''src'' [Word ''src'']
          (Rejected (exec_failure_message ''/usr/bin/pylint'' 2) [''[{''])
          diag_error_text (Arr [diag_error]))
   = ([ExecCall ''pylint'' [Word ''src'', json_flag],
       ConsoleError (ExecError (''The process '' @ [apostrophe] @ ''/usr/bin/pylint''
          @ [apostrophe] @ '' failed with exit code 2'')),
       ConsoleError (Thrown SyntaxError)], None)
   \<and> filter is_set_failed (fst (run (sample_env ''src'' [Word ''src'']
          (Rejected (exec_failure_message ''/usr/bin/pylint'' 2) [''[{''])
          diag_error_text (Arr [diag_error])))) = []"
  by (simp add: sample_env_def run_def on_rejected_def is_usage_error_def indexOf_def
      exec_failure_message_def show_nat.simps digit_char_def diag_error_text_def quoted_def)

text \<open>
  Claim C3 asks that only exit code 32 is read as a usage error. The test of line 41
  looks for the text "exit code 32" in the message, which the messages for exit codes
  320 and 3221225477 contain as well: the run with exit code 320 stops as for a usage
  error although the output decodes to a diagnostic.
\<close>

theorem exit_code_320_read_as_usage_error:
  "run (sample_env ''src'' [Word ''src'']
          (Rejected (exec_failure_message ''/usr/bin/pylint'' 320) [diag_error_text])
          diag_error_text (Arr [diag_error]))
   = ([ExecCall ''pylint'' [Word ''src'', json_flag],
       ConsoleError (ExecError (''The process '' @ [apostrophe] @ ''/usr/bin/pylint''
          @ [apostrophe] @ '' failed with exit code 320'')),
       SetFailed Undefined], None)
   \<and> is_usage_error (exec_failure_message ''C:/Python/Scripts/pylint.exe'' 3221225477)"
  by (simp add: sample_env_def run_def on_rejected_def is_usage_error_def indexOf_def
      exec_failure_message_def show_nat.simps digit_char_def)

text \<open>The search finds the text where it stands, and exit code 32 is always read as a
  usage error, whatever the path of the tool.\<close>

lemma indexOf_from_found: "i \<le> indexOf_from (pre @ t @ post) t i"
proof (induction pre arbitrary: i)
  case Nil
  show ?case
  proof (cases "t @ post")
    case Nil
    then show ?thesis by simp
  next
    case (Cons a list)
    have "prefix t (t @ post)" by simp
    with Cons show ?thesis by simp
  qed
next
  case (Cons a pre)
  have "i + 1 \<le> indexOf_from (pre @ t @ post) t (i + 1)" by (rule Cons.IH)
  then show ?case by simp
qed

lemma usage_error_exit_32: "is_usage_error (exec_failure_message toolPath 32)"
proof -
  have "1 \<le> indexOf_from (''he process '' @ [apostrophe] @ toolPath @ [apostrophe]
      @ '' failed with '' @ ''exit code 32'' @ []) ''exit code 32'' 1"
    using indexOf_from_found
      [of 1 "''he process '' @ [apostrophe] @ toolPath @ [apostrophe] @ '' failed with ''"
        "''exit code 32''" "[]"]
    by simp
  then show ?thesis
    by (simp add: is_usage_error_def indexOf_def exec_failure_message_def show_nat.simps
        digit_char_def)
qed

end
